theory Spec2Isabelle
  imports Main "HOL-Library.Char_ord" "HOL-Library.List_Lexorder" "HOL-Library.Multiset"
    "HOL-Library.Sublist"
begin

section \<open>Numbers and strings of the host language\<close>

text \<open>
  Counts, durations, timestamps and HTTP status codes are integers in this program; they
  are modelled as \<open>int\<close>. Strings are \<open>string\<close>, with text beyond ASCII carried as
  its UTF-8 bytes. The string methods are given on ASCII: \<open>toLowerCase\<close> maps the
  letters A to Z and leaves every other character as it is, and \<open>trim\<close> removes ASCII
  white space. JavaScript also maps letters and removes spaces beyond ASCII; the general
  properties below hold for any such mapping, and the worked examples use ASCII text.
\<close>

definition digit_char :: "nat \<Rightarrow> char" where
  "digit_char d = ''0123456789'' ! d"

function nat_toString :: "nat \<Rightarrow> string" where
  "nat_toString n =
     (if n < 10 then [digit_char n] else nat_toString (n div 10) @ [digit_char (n mod 10)])"
  by pat_completeness auto
termination
  by (relation "measure (\<lambda>n. n)") auto

declare nat_toString.simps [simp del]

text \<open>\<open>Number.prototype.toString()\<close> on an integer: decimal digits, a minus sign first.\<close>

definition toString :: "int \<Rightarrow> string" where
  "toString i = (if i < 0 then CHR ''-'' # nat_toString (nat (- i)) else nat_toString (nat i))"

text \<open>\<open>s.padStart(n, c)\<close> for a one-character pad string.\<close>

definition padStart :: "string \<Rightarrow> nat \<Rightarrow> char \<Rightarrow> string" where
  "padStart s n c = replicate (n - length s) c @ s"

text \<open>The remainder operator \<open>%\<close>: the result takes the sign of the dividend.\<close>

definition js_rem :: "int \<Rightarrow> int \<Rightarrow> int" where
  "js_rem a b = (if a < 0 then - ((- a) mod \<bar>b\<bar>) else a mod \<bar>b\<bar>)"

text \<open>\<open>x || 0\<close> on a number and \<open>s || ''\<close> on a string: the falsy value is replaced.\<close>

definition orZero :: "int \<Rightarrow> int" where
  "orZero x = (if x = 0 then 0 else x)"

definition orEmpty :: "string \<Rightarrow> string" where
  "orEmpty s = (if s = [] then [] else s)"


section \<open>The services page\<close>

subsection \<open>Data\<close>

datatype Status = online | offline | restarting | starting

record Service =
  service_id :: string
  name :: string
  description :: string
  status :: Status
  uptime :: "string option"
  restartable :: bool

text \<open>The four \<open>useState\<close> cells of \<open>ServicesPage\<close>.\<close>

record ServicesPage_state =
  services :: "Service list"
  restartingServices :: "string set"
  loading :: bool
  error :: "string option"

subsection \<open>Effects, exceptions and awaited results\<close>

text \<open>
  Everything an asynchronous handler does to the outside is recorded, in program order,
  as a list of effects: requests sent, timers awaited, log lines and state setters.
\<close>

datatype effect =
    Fetch_GET_services
  | Fetch_POST_restart string
  | SetTimeout nat
  | ConsoleError string
  | SetServices "Service list"
  | SetError "string option"
  | SetLoading bool
  | RestartingAdd string
  | RestartingDelete string

datatype exn = Error string | TypeError

text \<open>
  A task is a handler run to completion against given answers of the network: the effects
  it performed and either the value it returned or the exception that escaped it.
\<close>

type_synonym 'a task = "effect list \<times> (exn + 'a)"

definition return :: "'a \<Rightarrow> 'a task" where
  "return x = ([], Inr x)"

definition throw :: "exn \<Rightarrow> 'a task" where
  "throw e = ([], Inl e)"

definition emit :: "effect \<Rightarrow> unit task" where
  "emit e = ([e], Inr ())"

definition bind :: "'a task \<Rightarrow> ('a \<Rightarrow> 'b task) \<Rightarrow> 'b task" where
  "bind m f =
     (case m of
        (es, Inl e) \<Rightarrow> (es, Inl e)
      | (es, Inr x) \<Rightarrow> (case f x of (es', r) \<Rightarrow> (es @ es', r)))"

text \<open>\<open>try { body } catch (e) { handler } finally { fin }\<close>.\<close>

definition try_catch_finally :: "'a task \<Rightarrow> (exn \<Rightarrow> 'a task) \<Rightarrow> unit task \<Rightarrow> 'a task" where
  "try_catch_finally body handler fin =
     (case body of (es1, r1) \<Rightarrow>
        (case (case r1 of Inl e \<Rightarrow> handler e | Inr x \<Rightarrow> ([], Inr x)) of (es2, r2) \<Rightarrow>
           (case fin of (es3, r3) \<Rightarrow>
              (es1 @ es2 @ es3, (case r3 of Inl e \<Rightarrow> Inl e | Inr u \<Rightarrow> r2)))))"

text \<open>\<open>promise.catch(() => d)\<close>.\<close>

definition catch_default :: "'a task \<Rightarrow> 'a \<Rightarrow> 'a task" where
  "catch_default m d = (case m of (es, Inl e) \<Rightarrow> (es, Inr d) | (es, Inr x) \<Rightarrow> (es, Inr x))"

text \<open>
  A parsed JSON body is \<open>null\<close> or an object, of which only the one field the handler
  reads is kept (\<open>None\<close> when the field is absent). A response carries \<open>ok\<close>, the
  status code and the body, \<open>None\<close> when \<open>response.json()\<close> rejects. A \<open>fetch\<close>
  either rejects (transport failure) or resolves to a response.
\<close>

datatype 'a json = Null | Obj 'a

datatype 'a response = Response (ok: bool) (status_code: int) (body: "'a json option")

datatype 'a fetch_outcome = Rejected | Resolved "'a response"

definition fetch :: "effect \<Rightarrow> 'a fetch_outcome \<Rightarrow> 'a response task" where
  "fetch request outcome =
     bind (emit request) (\<lambda>_. case outcome of Rejected \<Rightarrow> throw TypeError | Resolved r \<Rightarrow> return r)"

definition response_json :: "'a response \<Rightarrow> 'a json task" where
  "response_json r = (case body r of None \<Rightarrow> throw TypeError | Some j \<Rightarrow> return j)"

text \<open>Reading a property of \<open>null\<close> throws.\<close>

definition get_field :: "'a json \<Rightarrow> 'a task" where
  "get_field j = (case j of Null \<Rightarrow> throw TypeError | Obj v \<Rightarrow> return v)"

subsection \<open>\<open>fetchServices\<close>\<close>

text \<open>The em dash of the fallback entry, as its UTF-8 bytes.\<close>

definition em_dash :: string where
  "em_dash = [CHR 0xE2, CHR 0x80, CHR 0x94]"

definition fallbackServices :: "Service list" where
  "fallbackServices =
     [\<lparr>service_id = ''bot'', name = ''Discord Bot'',
       description = ''Core Discord bot handling commands and audio playback'',
       status = offline, uptime = Some em_dash, restartable = True\<rparr>,
      \<lparr>service_id = ''dashboard'', name = ''Dashboard'',
       description = ''This Next.js web dashboard'',
       status = online, uptime = Some ''Running'', restartable = False\<rparr>]"

definition fetchServices :: "Service list option fetch_outcome \<Rightarrow> unit task" where
  "fetchServices outcome =
     try_catch_finally
       (bind (fetch Fetch_GET_services outcome) (\<lambda>response.
        bind (if \<not> ok response
              then throw (Error (''Failed to fetch services: '' @ toString (status_code response)))
              else return ()) (\<lambda>_.
        bind (response_json response) (\<lambda>data.
        bind (get_field data) (\<lambda>data_services.
        bind (emit (SetServices (case data_services of None \<Rightarrow> [] | Some xs \<Rightarrow> xs))) (\<lambda>_.
        emit (SetError None)))))))
       (\<lambda>err.
        bind (emit (ConsoleError ''Failed to fetch services:'')) (\<lambda>_.
        bind (emit (SetError (Some ''Failed to connect to bot API''))) (\<lambda>_.
        emit (SetServices fallbackServices))))
       (emit (SetLoading False))"

subsection \<open>\<open>handleRestart\<close> and the restart button\<close>

definition handleRestart ::
  "string \<Rightarrow> string option fetch_outcome \<Rightarrow> Service list option fetch_outcome \<Rightarrow> unit task" where
  "handleRestart serviceId restart_outcome services_outcome =
     bind (emit (RestartingAdd serviceId)) (\<lambda>_.
     try_catch_finally
       (bind (fetch (Fetch_POST_restart serviceId) restart_outcome) (\<lambda>response.
        bind (if \<not> ok response
              then bind (catch_default (response_json response) (Obj None)) (\<lambda>data.
                   bind (get_field data) (\<lambda>data_error.
                   throw (Error (case data_error of
                                   None \<Rightarrow> ''Restart failed''
                                 | Some m \<Rightarrow> if m = [] then ''Restart failed'' else m))))
              else return ()) (\<lambda>_.
        bind (emit (SetTimeout 5000)) (\<lambda>_.
        fetchServices services_outcome))))
       (\<lambda>err. emit (ConsoleError ''Failed to restart service:''))
       (emit (RestartingDelete serviceId)))"

text \<open>
  \<open>ServiceCard\<close> wires \<open>onRestart\<close> to a button whose \<open>disabled\<close> attribute is
  \<open>isRestarting || !service.restartable\<close>; a disabled button delivers no click.
\<close>

definition ServiceCard_button_disabled :: "Service \<Rightarrow> bool \<Rightarrow> bool" where
  "ServiceCard_button_disabled service isRestarting \<longleftrightarrow> isRestarting \<or> \<not> restartable service"

definition ServiceCard_button_click :: "Service \<Rightarrow> unit task \<Rightarrow> bool \<Rightarrow> unit task" where
  "ServiceCard_button_click service onRestart isRestarting =
     (if ServiceCard_button_disabled service isRestarting then return () else onRestart)"

text \<open>
  The page renders one card per service with
  \<open>onRestart = () => handleRestart(service.id)\<close> and
  \<open>isRestarting = restartingServices.has(service.id)\<close>.
\<close>

definition restart ::
  "ServicesPage_state \<Rightarrow> Service \<Rightarrow> string option fetch_outcome
     \<Rightarrow> Service list option fetch_outcome \<Rightarrow> unit task" where
  "restart st service restart_outcome services_outcome =
     ServiceCard_button_click service
       (handleRestart (service_id service) restart_outcome services_outcome)
       (service_id service \<in> restartingServices st)"

subsection \<open>The state after a run\<close>

fun apply_effect :: "ServicesPage_state \<Rightarrow> effect \<Rightarrow> ServicesPage_state" where
  "apply_effect st (SetServices xs) = st\<lparr>services := xs\<rparr>"
| "apply_effect st (SetError e) = st\<lparr>error := e\<rparr>"
| "apply_effect st (SetLoading b) = st\<lparr>loading := b\<rparr>"
| "apply_effect st (RestartingAdd i) = st\<lparr>restartingServices := insert i (restartingServices st)\<rparr>"
| "apply_effect st (RestartingDelete i) = st\<lparr>restartingServices := restartingServices st - {i}\<rparr>"
| "apply_effect st Fetch_GET_services = st"
| "apply_effect st (Fetch_POST_restart i) = st"
| "apply_effect st (SetTimeout ms) = st"
| "apply_effect st (ConsoleError msg) = st"

definition run :: "ServicesPage_state \<Rightarrow> 'a task \<Rightarrow> ServicesPage_state" where
  "run st t = foldl apply_effect st (fst t)"

definition restart_succeeded :: "string option fetch_outcome \<Rightarrow> bool" where
  "restart_succeeded outcome = (case outcome of Rejected \<Rightarrow> False | Resolved r \<Rightarrow> ok r)"

definition fetch_failed :: "'a fetch_outcome \<Rightarrow> bool" where
  "fetch_failed outcome = (case outcome of Rejected \<Rightarrow> True | Resolved r \<Rightarrow> \<not> ok r)"


section \<open>The library page\<close>

subsection \<open>Data\<close>

record LibraryItem =
  item_id :: int
  title :: string
  artist_name :: string
  album :: "string option"
  release_year :: "int option"
  duration_seconds :: "int option"
  yt_id :: "string option"
  spotify_id :: "string option"
  genre :: "string option"
  contributors :: "string option"
  sources :: "string option"
  last_added :: string
  play_count :: int
  like_count :: int
  dislike_count :: int

datatype SortBy = Recent | Title | Artist | Plays | Likes

text \<open>The four \<open>useState\<close> cells of \<open>LibraryPageClient\<close>, and their initial values.\<close>

record LibraryPage_state =
  searchQuery :: string
  genreFilter :: string
  sourceFilter :: string
  sortBy :: SortBy

definition initial_state :: LibraryPage_state where
  "initial_state =
     \<lparr>searchQuery = [], genreFilter = ''all'', sourceFilter = ''all'', sortBy = Recent\<rparr>"

subsection \<open>String methods\<close>

definition lower_char :: "char \<Rightarrow> char" where
  "lower_char c =
     (case map_of (zip ''ABCDEFGHIJKLMNOPQRSTUVWXYZ'' ''abcdefghijklmnopqrstuvwxyz'') c of
        None \<Rightarrow> c | Some d \<Rightarrow> d)"

definition toLowerCase :: "string \<Rightarrow> string" where
  "toLowerCase s = map lower_char s"

text \<open>\<open>s.includes(q)\<close>: \<open>q\<close> occurs in \<open>s\<close> as a contiguous run.\<close>

fun str_includes :: "string \<Rightarrow> string \<Rightarrow> bool" where
  "str_includes [] q = (q = [])"
| "str_includes (c # cs) q = (prefix q (c # cs) \<or> str_includes cs q)"

text \<open>
  \<open>s.split(sep)\<close> for a one-character separator: the result is never empty, and the
  empty string gives one empty piece.
\<close>

fun split_str :: "char \<Rightarrow> string \<Rightarrow> string list" where
  "split_str sep [] = [[]]"
| "split_str sep (c # cs) =
     (if c = sep then [] # split_str sep cs
      else (case split_str sep cs of [] \<Rightarrow> [[c]] | w # ws \<Rightarrow> (c # w) # ws))"

definition isSpace :: "char \<Rightarrow> bool" where
  "isSpace c \<longleftrightarrow> c \<in> set [CHR '' '', CHR 0x09, CHR 0x0A, CHR 0x0B, CHR 0x0C, CHR 0x0D]"

definition trim :: "string \<Rightarrow> string" where
  "trim s = rev (dropWhile isSpace (rev (dropWhile isSpace s)))"

subsection \<open>\<open>formatDuration\<close>\<close>

definition formatDuration :: "int option \<Rightarrow> string" where
  "formatDuration seconds =
     (case seconds of
        None \<Rightarrow> ''--:--''
      | Some s \<Rightarrow>
          if s = 0 then ''--:--''
          else (let mins = s div 60; secs = js_rem s 60
                in toString mins @ '':'' @ padStart (toString secs) 2 CHR ''0''))"

subsection \<open>Sets and sorting of the host language\<close>

text \<open>A \<open>Set\<close> keeps its members in insertion order, each once.\<close>

definition Set_add :: "'a list \<Rightarrow> 'a \<Rightarrow> 'a list" where
  "Set_add s x = (if x \<in> set s then s else s @ [x])"

definition new_Set :: "'a list \<Rightarrow> 'a list" where
  "new_Set xs = foldl Set_add [] xs"

text \<open>
  \<open>Array.prototype.sort(comparefn)\<close>. A comparator answers with a number, \<open>None\<close>
  standing for \<open>NaN\<close>, which the sort reads as \<open>+0\<close>. The language standard makes the
  sort stable, so for a consistent comparator its result is the one ordered arrangement
  that keeps equal elements in their original order; the insertion sort below computes
  that arrangement. For an inconsistent comparator the standard leaves the order to the
  engine, and nothing is claimed about it.
\<close>

definition SortCompare :: "('a \<Rightarrow> 'a \<Rightarrow> int option) \<Rightarrow> 'a \<Rightarrow> 'a \<Rightarrow> int" where
  "SortCompare comparefn x y = (case comparefn x y of None \<Rightarrow> 0 | Some v \<Rightarrow> v)"

fun sort_insert :: "('a \<Rightarrow> 'a \<Rightarrow> int option) \<Rightarrow> 'a \<Rightarrow> 'a list \<Rightarrow> 'a list" where
  "sort_insert comparefn x [] = [x]"
| "sort_insert comparefn x (y # ys) =
     (if SortCompare comparefn x y \<le> 0 then x # y # ys else y # sort_insert comparefn x ys)"

definition Array_sort :: "('a \<Rightarrow> 'a \<Rightarrow> int option) \<Rightarrow> 'a list \<Rightarrow> 'a list" where
  "Array_sort comparefn xs = foldr (sort_insert comparefn) xs []"

text \<open>
  What the standard asks of a comparator on the values \<open>S\<close>: it never answers \<open>NaN\<close>,
  and the signs of its answers order \<open>S\<close> totally up to ties.
\<close>

definition consistent_on :: "'a set \<Rightarrow> ('a \<Rightarrow> 'a \<Rightarrow> int option) \<Rightarrow> bool" where
  "consistent_on S comparefn \<longleftrightarrow>
     (\<forall>a\<in>S. \<forall>b\<in>S. comparefn a b \<noteq> None) \<and>
     (\<forall>a\<in>S. SortCompare comparefn a a = 0) \<and>
     (\<forall>a\<in>S. \<forall>b\<in>S. SortCompare comparefn a b < 0 \<longleftrightarrow> 0 < SortCompare comparefn b a) \<and>
     (\<forall>a\<in>S. \<forall>b\<in>S. \<forall>c\<in>S.
        SortCompare comparefn a b \<le> 0 \<and> SortCompare comparefn b c \<le> 0
          \<longrightarrow> SortCompare comparefn a c \<le> 0)"

text \<open>A list is in the order of a comparator when no element is placed after a later one.\<close>

definition in_order :: "('a \<Rightarrow> 'a \<Rightarrow> int option) \<Rightarrow> 'a list \<Rightarrow> bool" where
  "in_order comparefn xs = sorted_wrt (\<lambda>a b. SortCompare comparefn a b \<le> 0) xs"

subsection \<open>Derived vocabularies\<close>

text \<open>
  \<open>Array.from(set).sort()\<close> without a comparator orders strings by their code units,
  which is the lexicographic order of \<open>string\<close>.
\<close>

definition allGenres :: "LibraryItem list \<Rightarrow> string list" where
  "allGenres initialLibrary =
     sort (foldl (\<lambda>genres item.
                    case genre item of
                      None \<Rightarrow> genres
                    | Some raw \<Rightarrow> foldl (\<lambda>genres g. Set_add genres (trim g)) genres
                                  (split_str CHR '','' raw))
                 [] initialLibrary)"

definition allSources :: "LibraryItem list \<Rightarrow> string list" where
  "allSources initialLibrary =
     sort (foldl (\<lambda>sources item.
                    case LibraryItem.sources item of
                      None \<Rightarrow> sources
                    | Some raw \<Rightarrow> foldl (\<lambda>sources s. Set_add sources (trim s)) sources
                                  (split_str CHR '','' raw))
                 [] initialLibrary)"

subsection \<open>\<open>filteredLibrary\<close>\<close>

text \<open>
  Two functions of the platform are parameters of the model:
  \<open>localeCompare a b\<close> for \<open>a.localeCompare(b)\<close>, and \<open>getTime s\<close> for
  \<open>new Date(s).getTime()\<close>, which is \<open>None\<close> (\<open>NaN\<close>) when \<open>s\<close> is not a date.
\<close>

definition matchesSearch :: "string \<Rightarrow> LibraryItem \<Rightarrow> bool" where
  "matchesSearch query item \<longleftrightarrow>
     str_includes (toLowerCase (title item)) query \<or>
     str_includes (toLowerCase (artist_name item)) query \<or>
     (case album item of None \<Rightarrow> False | Some a \<Rightarrow> str_includes (toLowerCase a) query)"

definition matchesGenre :: "string \<Rightarrow> LibraryItem \<Rightarrow> bool" where
  "matchesGenre selected item \<longleftrightarrow>
     (case genre item of
        None \<Rightarrow> False
      | Some raw \<Rightarrow> str_includes (toLowerCase raw) (toLowerCase selected))"

definition matchesSource :: "string \<Rightarrow> LibraryItem \<Rightarrow> bool" where
  "matchesSource selected item \<longleftrightarrow>
     (case sources item of
        None \<Rightarrow> False
      | Some raw \<Rightarrow> str_includes (toLowerCase raw) (toLowerCase selected))"

fun compareItems ::
  "(string \<Rightarrow> string \<Rightarrow> int) \<Rightarrow> (string \<Rightarrow> int option) \<Rightarrow> SortBy
     \<Rightarrow> LibraryItem \<Rightarrow> LibraryItem \<Rightarrow> int option" where
  "compareItems localeCompare getTime Title a b =
     Some (localeCompare (orEmpty (title a)) (orEmpty (title b)))"
| "compareItems localeCompare getTime Artist a b =
     Some (localeCompare (orEmpty (artist_name a)) (orEmpty (artist_name b)))"
| "compareItems localeCompare getTime Plays a b =
     Some (orZero (play_count b) - orZero (play_count a))"
| "compareItems localeCompare getTime Likes a b =
     Some (orZero (like_count b) - orZero (like_count a))"
| "compareItems localeCompare getTime Recent a b =
     (case (getTime (last_added b), getTime (last_added a)) of
        (Some tb, Some ta) \<Rightarrow> Some (tb - ta)
      | _ \<Rightarrow> None)"

definition filteredLibrary ::
  "(string \<Rightarrow> string \<Rightarrow> int) \<Rightarrow> (string \<Rightarrow> int option) \<Rightarrow> LibraryItem list
     \<Rightarrow> LibraryPage_state \<Rightarrow> LibraryItem list" where
  "filteredLibrary localeCompare getTime initialLibrary st =
     (let result = initialLibrary;
          result = (if searchQuery st \<noteq> []
                    then (let query = toLowerCase (searchQuery st)
                          in filter (matchesSearch query) result)
                    else result);
          result = (if genreFilter st \<noteq> ''all''
                    then filter (matchesGenre (genreFilter st)) result
                    else result);
          result = (if sourceFilter st \<noteq> ''all''
                    then filter (matchesSource (sourceFilter st)) result
                    else result)
      in Array_sort (compareItems localeCompare getTime (sortBy st)) result)"

subsection \<open>Statistics, filter state and the rendered page\<close>

definition uniqueArtists :: "LibraryItem list \<Rightarrow> nat" where
  "uniqueArtists initialLibrary = length (new_Set (map artist_name initialLibrary))"

definition uniqueGenres :: "LibraryItem list \<Rightarrow> nat" where
  "uniqueGenres initialLibrary = length (allGenres initialLibrary)"

definition totalPlays :: "LibraryItem list \<Rightarrow> int" where
  "totalPlays initialLibrary = foldl (\<lambda>sum i. sum + orZero (play_count i)) 0 initialLibrary"

definition totalLikes :: "LibraryItem list \<Rightarrow> int" where
  "totalLikes initialLibrary = foldl (\<lambda>sum i. sum + orZero (like_count i)) 0 initialLibrary"

definition totalDuration :: "LibraryItem list \<Rightarrow> int" where
  "totalDuration initialLibrary =
     foldl (\<lambda>sum i. sum + (case duration_seconds i of None \<Rightarrow> 0 | Some d \<Rightarrow> orZero d))
       0 initialLibrary"

definition totalHours :: "LibraryItem list \<Rightarrow> int" where
  "totalHours initialLibrary = totalDuration initialLibrary div 3600"

definition totalMins :: "LibraryItem list \<Rightarrow> int" where
  "totalMins initialLibrary = js_rem (totalDuration initialLibrary) 3600 div 60"

definition hasActiveFilters :: "LibraryPage_state \<Rightarrow> bool" where
  "hasActiveFilters st \<longleftrightarrow>
     searchQuery st \<noteq> [] \<or> genreFilter st \<noteq> ''all'' \<or> sourceFilter st \<noteq> ''all''"

definition clearFilters :: "LibraryPage_state \<Rightarrow> LibraryPage_state" where
  "clearFilters st = st\<lparr>searchQuery := [], genreFilter := ''all'', sourceFilter := ''all''\<rparr>"

text \<open>What one render of \<open>LibraryPageClient\<close> puts on the page.\<close>

record LibraryPage_view =
  header_songs :: nat
  header_artists :: nat
  header_hours :: int
  header_mins :: int
  card_songs :: nat
  card_artists :: nat
  card_genres :: nat
  card_total_plays :: int
  card_total_likes :: int
  genre_options :: "string list"
  source_options :: "string list"
  clear_button :: bool
  results_count :: "(nat \<times> nat) option"
  rows :: "LibraryItem list"

definition LibraryPageClient ::
  "(string \<Rightarrow> string \<Rightarrow> int) \<Rightarrow> (string \<Rightarrow> int option) \<Rightarrow> LibraryItem list
     \<Rightarrow> LibraryPage_state \<Rightarrow> LibraryPage_view" where
  "LibraryPageClient localeCompare getTime initialLibrary st =
     \<lparr>header_songs = length initialLibrary,
      header_artists = uniqueArtists initialLibrary,
      header_hours = totalHours initialLibrary,
      header_mins = totalMins initialLibrary,
      card_songs = length initialLibrary,
      card_artists = uniqueArtists initialLibrary,
      card_genres = uniqueGenres initialLibrary,
      card_total_plays = totalPlays initialLibrary,
      card_total_likes = totalLikes initialLibrary,
      genre_options = ''all'' # take 20 (allGenres initialLibrary),
      source_options = ''all'' # allSources initialLibrary,
      clear_button = hasActiveFilters st,
      results_count =
        (if hasActiveFilters st
         then Some (length (filteredLibrary localeCompare getTime initialLibrary st),
                    length initialLibrary)
         else None),
      rows = filteredLibrary localeCompare getTime initialLibrary st\<rparr>"

text \<open>The statistics a render shows, gathered for comparison between renders.\<close>

definition statistics :: "LibraryPage_view \<Rightarrow> nat \<times> nat \<times> int \<times> int \<times> int \<times> int" where
  "statistics v =
     (card_artists v, card_genres v, card_total_plays v, card_total_likes v,
      header_hours v, header_mins v)"


subsection \<open>Criteria in force, and values for worked examples\<close>

text \<open>The conjunction of the criteria that a state puts in force.\<close>

definition activeCriteria :: "LibraryPage_state \<Rightarrow> LibraryItem \<Rightarrow> bool" where
  "activeCriteria st item \<longleftrightarrow>
     (searchQuery st \<noteq> [] \<longrightarrow> matchesSearch (toLowerCase (searchQuery st)) item) \<and>
     (genreFilter st \<noteq> ''all'' \<longrightarrow> matchesGenre (genreFilter st) item) \<and>
     (sourceFilter st \<noteq> ''all'' \<longrightarrow> matchesSource (sourceFilter st) item)"

text \<open>The tokens of a comma-joined field: none for \<open>null\<close>, else its trimmed pieces.\<close>

definition tokens_of :: "string option \<Rightarrow> string set" where
  "tokens_of field =
     (case field of None \<Rightarrow> {} | Some raw \<Rightarrow> trim ` set (split_str CHR '','' raw))"

text \<open>
  For worked examples: a comparison of strings by code units, which is what
  \<open>localeCompare\<close> gives on words of lower-case ASCII letters; the timestamps of two
  ISO dates; and a song with the fields that matter filled in.
\<close>

definition example_localeCompare :: "string \<Rightarrow> string \<Rightarrow> int" where
  "example_localeCompare a b = (if a < b then - 1 else if a = b then 0 else 1)"

definition example_getTime :: "string \<Rightarrow> int option" where
  "example_getTime s =
     map_of [(''2024-01-01T00:00:00.000Z'', 1704067200000),
             (''2024-01-02T00:00:00.000Z'', 1704153600000)] s"

definition example_song :: "int \<Rightarrow> string \<Rightarrow> string option \<Rightarrow> string option \<Rightarrow> int \<Rightarrow> LibraryItem" where
  "example_song i t g s plays =
     \<lparr>item_id = i, title = t, artist_name = ''Artist'', album = None, release_year = None,
      duration_seconds = Some 125, yt_id = None, spotify_id = None, genre = g,
      contributors = None, sources = s, last_added = ''2024-01-01T00:00:00.000Z'',
      play_count = plays, like_count = 0, dislike_count = 0\<rparr>"

text \<open>Twenty-two one-letter tags, for a vocabulary longer than twenty.\<close>

definition example_tags :: string where
  "example_tags = ''a,b,c,d,e,f,g,h,i,j,k,l,m,n,o,p,q,r,s,t,u,v''"


section \<open>Properties of the services page\<close>

lemmas task_defs =
  return_def throw_def emit_def bind_def try_catch_finally_def catch_default_def
  fetch_def response_json_def get_field_def

lemma fetchServices_failed:
  "fetch_failed outcome \<Longrightarrow>
   fetchServices outcome =
     ([Fetch_GET_services, ConsoleError ''Failed to fetch services:'',
       SetError (Some ''Failed to connect to bot API''), SetServices fallbackServices,
       SetLoading False], Inr ())"
  by (cases outcome) (auto simp: fetchServices_def fetch_failed_def task_defs)

lemma fetchServices_never_throws: "snd (fetchServices outcome) = Inr ()"
  by (auto simp: fetchServices_def task_defs
      split: fetch_outcome.splits option.splits json.splits)

lemma fetchServices_head: "\<exists>es. fst (fetchServices outcome) = Fetch_GET_services # es"
  by (auto simp: fetchServices_def task_defs
      split: fetch_outcome.splits option.splits json.splits)

lemma handleRestart_trace:
  "handleRestart sid ro so =
     (if restart_succeeded ro
      then ([RestartingAdd sid, Fetch_POST_restart sid, SetTimeout 5000]
              @ fst (fetchServices so) @ [RestartingDelete sid], Inr ())
      else ([RestartingAdd sid, Fetch_POST_restart sid,
             ConsoleError ''Failed to restart service:'', RestartingDelete sid], Inr ()))"
proof (cases ro)
  case Rejected
  then show ?thesis
    by (simp add: handleRestart_def restart_succeeded_def task_defs)
next
  case (Resolved r)
  obtain es where fs: "fetchServices so = (es, Inr ())"
    using fetchServices_never_throws [of so] by (cases "fetchServices so") auto
  show ?thesis
  proof (cases "ok r")
    case True
    with Resolved fs show ?thesis
      by (simp add: handleRestart_def restart_succeeded_def task_defs)
  next
    case False
    with Resolved show ?thesis
      by (cases "body r")
         (auto simp: handleRestart_def restart_succeeded_def task_defs
               split: json.splits option.splits)
  qed
qed

text \<open>
  C1 (as the code has it). A click that passes the guard adds the id to the restarting set
  and posts the restart command. When the command succeeds the handler waits 5000 ms, runs
  \<open>fetchServices\<close> (whose first act is the GET request) and then deletes the id from
  the set. When the command fails, by rejection or by a response that is not ok, the
  handler logs the failure and deletes the id at once: no wait and no fetch. Either way the
  handler throws nothing and the id is not in the set when it has finished.
\<close>

theorem restart_completion:
  "restartable service \<Longrightarrow> service_id service \<notin> restartingServices st \<Longrightarrow>
   restart st service ro so =
     (if restart_succeeded ro
      then ([RestartingAdd (service_id service), Fetch_POST_restart (service_id service),
             SetTimeout 5000]
              @ fst (fetchServices so) @ [RestartingDelete (service_id service)], Inr ())
      else ([RestartingAdd (service_id service), Fetch_POST_restart (service_id service),
             ConsoleError ''Failed to restart service:'',
             RestartingDelete (service_id service)], Inr ()))
   \<and> (\<exists>es. fst (fetchServices so) = Fetch_GET_services # es)
   \<and> service_id service \<notin> restartingServices (run st (restart st service ro so))"
  by (simp add: restart_def ServiceCard_button_click_def ServiceCard_button_disabled_def
      handleRestart_trace run_def fetchServices_head)

theorem restart_completion_witness:
  "restartable (hd fallbackServices) \<and>
   service_id (hd fallbackServices) \<notin> restartingServices
     \<lparr>services = fallbackServices, restartingServices = {}, loading = False, error = None\<rparr> \<and>
   restart \<lparr>services = fallbackServices, restartingServices = {}, loading = False, error = None\<rparr>
       (hd fallbackServices) (Resolved (Response True 200 None)) Rejected =
     ([RestartingAdd ''bot'', Fetch_POST_restart ''bot'', SetTimeout 5000,
       Fetch_GET_services, ConsoleError ''Failed to fetch services:'',
       SetError (Some ''Failed to connect to bot API''), SetServices fallbackServices,
       SetLoading False, RestartingDelete ''bot''], Inr ())"
  using restart_completion [of "hd fallbackServices"
      "\<lparr>services = fallbackServices, restartingServices = {}, loading = False, error = None\<rparr>"
      "Resolved (Response True 200 None)" Rejected]
  by (simp add: fallbackServices_def restart_succeeded_def fetchServices_failed fetch_failed_def)

text \<open>
  C1 as claimed fails: a restart command answered with status 500 is followed by neither
  the 5000 ms wait nor a call of \<open>fetchServices\<close>.
\<close>

theorem restart_failure_counterexample:
  "fst (restart \<lparr>services = fallbackServices, restartingServices = {}, loading = False, error = None\<rparr>
         (hd fallbackServices) (Resolved (Response False 500 None)) Rejected) =
     [RestartingAdd ''bot'', Fetch_POST_restart ''bot'',
      ConsoleError ''Failed to restart service:'', RestartingDelete ''bot''] \<and>
   SetTimeout 5000 \<notin> set (fst (restart
         \<lparr>services = fallbackServices, restartingServices = {}, loading = False, error = None\<rparr>
         (hd fallbackServices) (Resolved (Response False 500 None)) Rejected)) \<and>
   Fetch_GET_services \<notin> set (fst (restart
         \<lparr>services = fallbackServices, restartingServices = {}, loading = False, error = None\<rparr>
         (hd fallbackServices) (Resolved (Response False 500 None)) Rejected))"
  by (simp add: restart_def ServiceCard_button_click_def ServiceCard_button_disabled_def
      fallbackServices_def handleRestart_def task_defs)

text \<open>
  C3. A click on the restart button of a service that is not restartable, or whose id is in
  the restarting set, does nothing: no effect at all (so no request), and the state after
  it is the state before it.
\<close>

theorem restart_guard_noop:
  "\<not> restartable service \<or> service_id service \<in> restartingServices st \<Longrightarrow>
   restart st service ro so = ([], Inr ()) \<and> run st (restart st service ro so) = st"
  by (auto simp: restart_def ServiceCard_button_click_def ServiceCard_button_disabled_def
      run_def return_def)

theorem restart_guard_noop_witness:
  "service_id (hd fallbackServices) \<in> restartingServices
     \<lparr>services = fallbackServices, restartingServices = {''bot''}, loading = False,
      error = None\<rparr> \<and>
   restart \<lparr>services = fallbackServices, restartingServices = {''bot''}, loading = False,
            error = None\<rparr>
       (hd fallbackServices) (Resolved (Response True 200 None)) Rejected = ([], Inr ()) \<and>
   \<not> restartable (last fallbackServices) \<and>
   restart \<lparr>services = fallbackServices, restartingServices = {}, loading = False,
            error = None\<rparr>
       (last fallbackServices) (Resolved (Response True 200 None)) Rejected = ([], Inr ())"
  using
    restart_guard_noop [of "hd fallbackServices"
      "\<lparr>services = fallbackServices, restartingServices = {''bot''}, loading = False,
        error = None\<rparr>"
      "Resolved (Response True 200 None)" Rejected]
    restart_guard_noop [of "last fallbackServices"
      "\<lparr>services = fallbackServices, restartingServices = {}, loading = False,
        error = None\<rparr>"
      "Resolved (Response True 200 None)" Rejected]
  by (simp add: fallbackServices_def)

text \<open>
  C5. After a poll that fails (the request is rejected, or the response is not ok) the service
  list is the fallback list, whose two entries are the bot, offline and restartable, and the
  dashboard, online and not restartable, and the error message is set. After a following
  poll that succeeds the error is cleared and the service list is the \<open>services\<close> field of
  the response (the empty list when the field is absent).
\<close>

theorem fetchServices_fallback_then_recovery:
  "fetch_failed outcome \<Longrightarrow>
   (let st1 = run st (fetchServices outcome);
        st2 = run st1 (fetchServices (Resolved (Response True code (Some (Obj data_services)))))
    in services st1 = fallbackServices \<and>
       error st1 = Some ''Failed to connect to bot API'' \<and>
       map (\<lambda>s. (service_id s, status s, restartable s)) fallbackServices =
         [(''bot'', offline, True), (''dashboard'', online, False)] \<and>
       error st2 = None \<and>
       services st2 = (case data_services of None \<Rightarrow> [] | Some xs \<Rightarrow> xs))"
  by (simp add: fetchServices_failed run_def Let_def fallbackServices_def)
     (simp add: fetchServices_def task_defs)

theorem fetchServices_fallback_then_recovery_witness:
  "fetch_failed (Resolved (Response False 503 None) :: Service list option fetch_outcome) \<and>
   services (run \<lparr>services = [], restartingServices = {}, loading = True, error = None\<rparr>
              (fetchServices (Resolved (Response False 503 None)))) = fallbackServices \<and>
   error (run \<lparr>services = [], restartingServices = {}, loading = True, error = None\<rparr>
              (fetchServices (Resolved (Response False 503 None))))
     = Some ''Failed to connect to bot API'' \<and>
   services (run (run \<lparr>services = [], restartingServices = {}, loading = True, error = None\<rparr>
                   (fetchServices (Resolved (Response False 503 None))))
              (fetchServices (Resolved (Response True 200 (Some (Obj (Some [])))))))
     = []"
  using fetchServices_fallback_then_recovery
    [of "Resolved (Response False 503 None)"
        "\<lparr>services = [], restartingServices = {}, loading = True, error = None\<rparr>"
        200 "Some []"]
  by (simp add: fetch_failed_def Let_def)


section \<open>Properties of the library page\<close>

subsection \<open>Sorting\<close>

lemma Array_sort_Nil [simp]: "Array_sort c [] = []"
  by (simp add: Array_sort_def)

lemma Array_sort_Cons [simp]: "Array_sort c (x # xs) = sort_insert c x (Array_sort c xs)"
  by (simp add: Array_sort_def)

lemma mset_sort_insert [simp]: "mset (sort_insert c x ys) = add_mset x (mset ys)"
  by (induction ys) auto

lemma mset_Array_sort [simp]: "mset (Array_sort c xs) = mset xs"
  by (induction xs) auto

lemma set_Array_sort [simp]: "set (Array_sort c xs) = set xs"
  by (metis mset_Array_sort set_mset_mset)

lemma length_Array_sort [simp]: "length (Array_sort c xs) = length xs"
  by (metis mset_Array_sort size_mset)

lemma Array_sort_in_order_id: "in_order c xs \<Longrightarrow> Array_sort c xs = xs"
proof (induction xs)
  case Nil
  then show ?case by simp
next
  case (Cons x xs)
  then have "Array_sort c xs = xs" by (simp add: in_order_def)
  with Cons.prems show ?case by (cases xs) (auto simp: in_order_def)
qed

lemma in_order_sort_insert:
  assumes "consistent_on S c" "x \<in> S" "set ys \<subseteq> S" "in_order c ys"
  shows "in_order c (sort_insert c x ys)"
  using assms(3,4)
proof (induction ys)
  case Nil
  then show ?case by (simp add: in_order_def)
next
  case (Cons y ys)
  have anti: "\<And>a b. a \<in> S \<Longrightarrow> b \<in> S \<Longrightarrow> (SortCompare c a b < 0) = (0 < SortCompare c b a)"
    and trans: "\<And>a b d. a \<in> S \<Longrightarrow> b \<in> S \<Longrightarrow> d \<in> S \<Longrightarrow> SortCompare c a b \<le> 0
        \<Longrightarrow> SortCompare c b d \<le> 0 \<Longrightarrow> SortCompare c a d \<le> 0"
    using assms(1) unfolding consistent_on_def by blast+
  from Cons.prems have yS: "y \<in> S" and ysS: "set ys \<subseteq> S"
    and tl: "in_order c ys" and hd: "\<forall>z\<in>set ys. SortCompare c y z \<le> 0"
    by (auto simp: in_order_def)
  show ?case
  proof (cases "SortCompare c x y \<le> 0")
    case True
    have "\<forall>z\<in>set ys. SortCompare c x z \<le> 0"
      using trans [OF assms(2) yS _ True] hd ysS by blast
    with True Cons.prems show ?thesis by (simp add: in_order_def)
  next
    case False
    then have "SortCompare c y x \<le> 0" using anti [OF yS assms(2)] by simp
    moreover have "in_order c (sort_insert c x ys)" using Cons.IH ysS tl by simp
    moreover have "set (sort_insert c x ys) = insert x (set ys)"
      by (metis mset_sort_insert set_mset_add_mset_insert set_mset_mset)
    ultimately show ?thesis using False hd by (simp add: in_order_def)
  qed
qed

lemma in_order_Array_sort:
  "consistent_on S c \<Longrightarrow> set xs \<subseteq> S \<Longrightarrow> in_order c (Array_sort c xs)"
proof (induction xs)
  case Nil
  then show ?case by (simp add: in_order_def)
next
  case (Cons x xs)
  then show ?case using in_order_sort_insert [of S c x "Array_sort c xs"] by simp
qed

lemma filter_sort_insert_neg: "\<not> P x \<Longrightarrow> filter P (sort_insert c x ys) = filter P ys"
  by (induction ys) auto

lemma filter_sort_insert_pos:
  "P x \<Longrightarrow> \<forall>y\<in>set ys. P y \<longrightarrow> SortCompare c x y \<le> 0 \<Longrightarrow>
   filter P (sort_insert c x ys) = x # filter P ys"
  by (induction ys) auto

lemma Array_sort_stable_class:
  assumes "\<forall>x\<in>set xs. \<forall>y\<in>set xs. P x \<and> P y \<longrightarrow> SortCompare c x y \<le> 0"
  shows "filter P (Array_sort c xs) = filter P xs"
  using assms
proof (induction xs)
  case Nil
  then show ?case by simp
next
  case (Cons x xs)
  then have IH: "filter P (Array_sort c xs) = filter P xs" by simp
  show ?case
  proof (cases "P x")
    case True
    with Cons.prems have "\<forall>y\<in>set (Array_sort c xs). P y \<longrightarrow> SortCompare c x y \<le> 0" by simp
    with True IH show ?thesis by (simp add: filter_sort_insert_pos)
  next
    case False
    with IH show ?thesis by (simp add: filter_sort_insert_neg)
  qed
qed

lemma ties_compare_le:
  assumes "consistent_on S c" "a \<in> S" "x \<in> S" "y \<in> S"
    "SortCompare c a x = 0" "SortCompare c a y = 0"
  shows "SortCompare c x y \<le> 0"
proof -
  have "\<not> 0 < SortCompare c x a"
    using assms(1,2,3,5) unfolding consistent_on_def by (metis less_irrefl)
  then have "SortCompare c x a \<le> 0" by simp
  moreover have "SortCompare c a y \<le> 0" using assms(6) by simp
  ultimately show ?thesis using assms(1-4) unfolding consistent_on_def by blast
qed

lemma Array_sort_stable:
  assumes "consistent_on S c" "a \<in> S" "set xs \<subseteq> S"
  shows "filter (\<lambda>b. SortCompare c a b = 0) (Array_sort c xs) = filter (\<lambda>b. SortCompare c a b = 0) xs"
proof (rule Array_sort_stable_class, intro ballI impI)
  fix x y
  assume "x \<in> set xs" "y \<in> set xs" "SortCompare c a x = 0 \<and> SortCompare c a y = 0"
  with assms show "SortCompare c x y \<le> 0"
    using ties_compare_le [of S c a x y] by auto
qed

lemma consistent_on_subset: "consistent_on S c \<Longrightarrow> T \<subseteq> S \<Longrightarrow> consistent_on T c"
  unfolding consistent_on_def by (meson subsetD)

lemma orZero_id [simp]: "orZero x = x"
  by (simp add: orZero_def)

lemma orEmpty_id [simp]: "orEmpty s = s"
  by (simp add: orEmpty_def)

lemma consistent_on_descending:
  assumes "\<And>a b. a \<in> S \<Longrightarrow> b \<in> S \<Longrightarrow> c a b = Some (f b - f a)"
  shows "consistent_on S c"
  unfolding consistent_on_def SortCompare_def
  by (intro conjI ballI impI) (simp_all add: assms)

lemma consistent_on_collated:
  assumes "consistent_on UNIV (\<lambda>a b. Some (lc a b))"
    and "\<And>a b. c a b = Some (lc (f a) (f b))"
  shows "consistent_on S c"
proof -
  note all = assms(1) [unfolded consistent_on_def SortCompare_def option.case ball_UNIV]
  from all have r: "\<And>a. lc a a = 0" by blast
  from all have a: "\<And>a b. (lc a b < 0) = (0 < lc b a)" by blast
  from all have t: "\<And>a b d. lc a b \<le> 0 \<Longrightarrow> lc b d \<le> 0 \<Longrightarrow> lc a d \<le> 0" by blast
  show ?thesis
    unfolding consistent_on_def SortCompare_def assms(2) option.case
  proof (intro conjI ballI impI)
    fix x y z assume "lc (f x) (f y) \<le> 0 \<and> lc (f y) (f z) \<le> 0"
    then show "lc (f x) (f z) \<le> 0" using t by blast
  next
    fix x y show "(lc (f x) (f y) < 0) = (0 < lc (f y) (f x))" by (rule a)
  qed (simp_all add: r)
qed

lemma compareItems_consistent:
  assumes "consistent_on UNIV (\<lambda>a b. Some (lc a b))"
    and "k = Recent \<longrightarrow> (\<forall>x\<in>S. gt (last_added x) \<noteq> None)"
  shows "consistent_on S (compareItems lc gt k)"
proof (cases k)
  case Recent
  with assms(2) have v: "\<And>x. x \<in> S \<Longrightarrow> \<exists>t. gt (last_added x) = Some t" by auto
  have "compareItems lc gt Recent a b
        = Some (the (gt (last_added b)) - the (gt (last_added a)))" if "a \<in> S" "b \<in> S" for a b
    using v [OF that(1)] v [OF that(2)] by auto
  then show ?thesis unfolding Recent by (rule consistent_on_descending)
next
  case Title
  show ?thesis unfolding Title
    by (rule consistent_on_collated [OF assms(1), where f = title]) simp
next
  case Artist
  show ?thesis unfolding Artist
    by (rule consistent_on_collated [OF assms(1), where f = artist_name]) simp
next
  case Plays
  show ?thesis unfolding Plays
    by (rule consistent_on_descending [where f = play_count]) simp
next
  case Likes
  show ?thesis unfolding Likes
    by (rule consistent_on_descending [where f = like_count]) simp
qed

lemma example_localeCompare_consistent:
  "consistent_on UNIV (\<lambda>a b. Some (example_localeCompare a b))"
  unfolding consistent_on_def by (auto simp: SortCompare_def example_localeCompare_def)

subsection \<open>Filtering\<close>

lemma str_includes_sublist: "str_includes s q \<longleftrightarrow> sublist q s"
  by (induction s) (auto simp: sublist_Cons_right)

lemma filteredLibrary_eq:
  "filteredLibrary lc gt lib st =
     Array_sort (compareItems lc gt (sortBy st)) (filter (activeCriteria st) lib)"
  by (auto simp: filteredLibrary_def Let_def activeCriteria_def intro!: arg_cong [where f = "Array_sort _"] filter_cong)

lemmas library_eval =
  filteredLibrary_def Let_def matchesSearch_def matchesGenre_def matchesSource_def
  toLowerCase_def lower_char_def example_song_def SortCompare_def

text \<open>
  C4. Whatever the query, the selectors and the sort key, \<open>filteredLibrary\<close> holds
  only items of \<open>initialLibrary\<close>, none more often than there, and each of them meets
  every criterion in force: a non-empty query occurs, lower-cased, in the lower-cased title,
  artist name or album; a genre selector other than \<open>all\<close> occurs, lower-cased, in the
  lower-cased genre field, which is then not null; and the same for the source selector and
  the sources field.
\<close>

theorem filteredLibrary_sound:
  "mset (filteredLibrary lc gt lib st) \<subseteq># mset lib \<and>
   (\<forall>item\<in>set (filteredLibrary lc gt lib st).
      item \<in> set lib \<and>
      (searchQuery st \<noteq> [] \<longrightarrow>
         sublist (toLowerCase (searchQuery st)) (toLowerCase (title item)) \<or>
         sublist (toLowerCase (searchQuery st)) (toLowerCase (artist_name item)) \<or>
         (\<exists>a. album item = Some a \<and> sublist (toLowerCase (searchQuery st)) (toLowerCase a))) \<and>
      (genreFilter st \<noteq> ''all'' \<longrightarrow>
         (\<exists>raw. genre item = Some raw \<and>
                sublist (toLowerCase (genreFilter st)) (toLowerCase raw))) \<and>
      (sourceFilter st \<noteq> ''all'' \<longrightarrow>
         (\<exists>raw. sources item = Some raw \<and>
                sublist (toLowerCase (sourceFilter st)) (toLowerCase raw))))"
proof -
  have "mset (filteredLibrary lc gt lib st) \<subseteq># mset lib"
    by (simp add: filteredLibrary_eq)
  moreover have "set (filteredLibrary lc gt lib st) = {item \<in> set lib. activeCriteria st item}"
    by (simp add: filteredLibrary_eq)
  ultimately show ?thesis
    by (auto simp: activeCriteria_def matchesSearch_def matchesGenre_def matchesSource_def
        str_includes_sublist split: option.splits)
qed

theorem filteredLibrary_sound_witness:
  "filteredLibrary example_localeCompare example_getTime
     [example_song 1 ''Hello'' (Some ''Pop,Rock'') (Some ''spotify_import'') 3,
      example_song 2 ''World'' (Some ''Jazz'') (Some ''request'') 5]
     \<lparr>searchQuery = ''HEL'', genreFilter = ''Rock'', sourceFilter = ''all'', sortBy = Plays\<rparr>
   = [example_song 1 ''Hello'' (Some ''Pop,Rock'') (Some ''spotify_import'') 3] \<and>
   sublist (toLowerCase ''HEL'') (toLowerCase ''Hello'') \<and>
   sublist (toLowerCase ''Rock'') (toLowerCase ''Pop,Rock'')"
proof -
  have e: "filteredLibrary example_localeCompare example_getTime
     [example_song 1 ''Hello'' (Some ''Pop,Rock'') (Some ''spotify_import'') 3,
      example_song 2 ''World'' (Some ''Jazz'') (Some ''request'') 5]
     \<lparr>searchQuery = ''HEL'', genreFilter = ''Rock'', sourceFilter = ''all'', sortBy = Plays\<rparr>
   = [example_song 1 ''Hello'' (Some ''Pop,Rock'') (Some ''spotify_import'') 3]"
    by (simp add: library_eval)
  show ?thesis
    using filteredLibrary_sound [of example_localeCompare example_getTime
     "[example_song 1 ''Hello'' (Some ''Pop,Rock'') (Some ''spotify_import'') 3,
      example_song 2 ''World'' (Some ''Jazz'') (Some ''request'') 5]"
     "\<lparr>searchQuery = ''HEL'', genreFilter = ''Rock'', sourceFilter = ''all'', sortBy = Plays\<rparr>"]
    unfolding e
    by (simp add: example_song_def toLowerCase_def lower_char_def flip: str_includes_sublist)
qed

text \<open>
  C6. With a genre selector \<open>g\<close> other than \<open>all\<close> as the only criterion, an item of
  the library is kept exactly when its genre field is not null and its lower-cased text
  contains the lower-cased \<open>g\<close>; the source selector does the same with the sources
  field. For the library of the two items with genres \<open>Pop,Rock\<close> and \<open>Jazz\<close> and
  sources \<open>spotify_import\<close> and \<open>request\<close>, the genre \<open>Rock\<close> keeps exactly the
  first and the source \<open>request\<close> exactly the second.
\<close>

theorem genre_and_source_criteria:
  "g \<noteq> ''all'' \<Longrightarrow>
   (item \<in> set (filteredLibrary lc gt lib
        \<lparr>searchQuery = [], genreFilter = g, sourceFilter = ''all'', sortBy = k\<rparr>)
      \<longleftrightarrow> item \<in> set lib \<and>
          (\<exists>raw. genre item = Some raw \<and> sublist (toLowerCase g) (toLowerCase raw))) \<and>
   (item \<in> set (filteredLibrary lc gt lib
        \<lparr>searchQuery = [], genreFilter = ''all'', sourceFilter = g, sortBy = k\<rparr>)
      \<longleftrightarrow> item \<in> set lib \<and>
          (\<exists>raw. sources item = Some raw \<and> sublist (toLowerCase g) (toLowerCase raw))) \<and>
   (genre item = None \<longrightarrow>
      item \<notin> set (filteredLibrary lc gt lib
        \<lparr>searchQuery = [], genreFilter = g, sourceFilter = ''all'', sortBy = k\<rparr>)) \<and>
   (sources item = None \<longrightarrow>
      item \<notin> set (filteredLibrary lc gt lib
        \<lparr>searchQuery = [], genreFilter = ''all'', sourceFilter = g, sortBy = k\<rparr>)) \<and>
   filteredLibrary lc gt
       [a\<lparr>genre := Some ''Pop,Rock'', sources := Some ''spotify_import''\<rparr>,
        b\<lparr>genre := Some ''Jazz'', sources := Some ''request''\<rparr>]
       \<lparr>searchQuery = [], genreFilter = ''Rock'', sourceFilter = ''all'', sortBy = k\<rparr>
     = [a\<lparr>genre := Some ''Pop,Rock'', sources := Some ''spotify_import''\<rparr>] \<and>
   filteredLibrary lc gt
       [a\<lparr>genre := Some ''Pop,Rock'', sources := Some ''spotify_import''\<rparr>,
        b\<lparr>genre := Some ''Jazz'', sources := Some ''request''\<rparr>]
       \<lparr>searchQuery = [], genreFilter = ''all'', sourceFilter = ''request'', sortBy = k\<rparr>
     = [b\<lparr>genre := Some ''Jazz'', sources := Some ''request''\<rparr>]"
proof -
  assume g: "g \<noteq> ''all''"
  have 1: "set (filteredLibrary lc gt lib st) = {item \<in> set lib. activeCriteria st item}" for st
    by (simp add: filteredLibrary_eq)
  have 2: "filteredLibrary lc gt
       [a\<lparr>genre := Some ''Pop,Rock'', sources := Some ''spotify_import''\<rparr>,
        b\<lparr>genre := Some ''Jazz'', sources := Some ''request''\<rparr>]
       \<lparr>searchQuery = [], genreFilter = ''Rock'', sourceFilter = ''all'', sortBy = k\<rparr>
     = [a\<lparr>genre := Some ''Pop,Rock'', sources := Some ''spotify_import''\<rparr>]"
    by (simp add: filteredLibrary_def Let_def matchesGenre_def toLowerCase_def lower_char_def)
  have 3: "filteredLibrary lc gt
       [a\<lparr>genre := Some ''Pop,Rock'', sources := Some ''spotify_import''\<rparr>,
        b\<lparr>genre := Some ''Jazz'', sources := Some ''request''\<rparr>]
       \<lparr>searchQuery = [], genreFilter = ''all'', sourceFilter = ''request'', sortBy = k\<rparr>
     = [b\<lparr>genre := Some ''Jazz'', sources := Some ''request''\<rparr>]"
    by (simp add: filteredLibrary_def Let_def matchesSource_def toLowerCase_def lower_char_def)
  from g show ?thesis
    unfolding 1 2 3
    by (auto simp: activeCriteria_def matchesGenre_def matchesSource_def str_includes_sublist
        split: option.splits)
qed

theorem genre_and_source_criteria_witness:
  "''Rock'' \<noteq> ''all'' \<and>
   filteredLibrary example_localeCompare example_getTime
       [example_song 1 ''Hello'' (Some ''Pop,Rock'') (Some ''spotify_import'') 3,
        example_song 2 ''World'' (Some ''Jazz'') (Some ''request'') 5]
       \<lparr>searchQuery = [], genreFilter = ''Rock'', sourceFilter = ''all'', sortBy = Recent\<rparr>
     = [example_song 1 ''Hello'' (Some ''Pop,Rock'') (Some ''spotify_import'') 3] \<and>
   filteredLibrary example_localeCompare example_getTime
       [example_song 1 ''Hello'' (Some ''Pop,Rock'') (Some ''spotify_import'') 3,
        example_song 2 ''World'' (Some ''Jazz'') (Some ''request'') 5]
       \<lparr>searchQuery = [], genreFilter = ''all'', sourceFilter = ''request'', sortBy = Recent\<rparr>
     = [example_song 2 ''World'' (Some ''Jazz'') (Some ''request'') 5]"
  using genre_and_source_criteria [of "''Rock''"
      "example_song 1 ''Hello'' (Some ''Pop,Rock'') (Some ''spotify_import'') 3"
      example_localeCompare example_getTime
      "[example_song 1 ''Hello'' (Some ''Pop,Rock'') (Some ''spotify_import'') 3,
        example_song 2 ''World'' (Some ''Jazz'') (Some ''request'') 5]"
      Recent "example_song 1 ''Hello'' None None 3" "example_song 2 ''World'' None None 5"]
  by (simp add: example_song_def)

subsection \<open>Order after sorting and after clearing the filters\<close>

lemma Array_sort_idem:
  "consistent_on (set xs) c \<Longrightarrow> Array_sort c (Array_sort c xs) = Array_sort c xs"
  by (rule Array_sort_in_order_id) (simp add: in_order_Array_sort [of "set xs"])

lemma filter_Array_sort_all:
  "\<forall>x\<in>set ys. P x \<Longrightarrow> filter P (Array_sort c ys) = Array_sort c ys"
  by (simp add: filter_id_conv)

text \<open>
  C7. Let the platform's \<open>localeCompare\<close> be a consistent comparator, and for the key
  \<open>recent\<close> let every \<open>last_added\<close> of the list be a date. Then for each of the five
  keys: the sorted list is in the order of the key; a list already in that order is returned
  as it is, so sorting twice gives what sorting once gives; and the items that tie with a given
  item come out in the order they went in. The same holds of \<open>filteredLibrary\<close>: applied
  to its own result it returns it unchanged, and ties keep the order they have among the
  items that pass the filters.
\<close>

theorem sort_idempotent_stable:
  assumes "consistent_on UNIV (\<lambda>a b. Some (lc a b))"
    and "k = Recent \<longrightarrow> (\<forall>x\<in>set xs. gt (last_added x) \<noteq> None)"
  shows
    "(let c = compareItems lc gt k;
          st = \<lparr>searchQuery = q, genreFilter = g, sourceFilter = s, sortBy = k\<rparr>
      in in_order c (Array_sort c xs) \<and>
         (in_order c xs \<longrightarrow> Array_sort c xs = xs) \<and>
         Array_sort c (Array_sort c xs) = Array_sort c xs \<and>
         (\<forall>a\<in>set xs. filter (\<lambda>b. SortCompare c a b = 0) (Array_sort c xs)
                        = filter (\<lambda>b. SortCompare c a b = 0) xs) \<and>
         filteredLibrary lc gt (filteredLibrary lc gt xs st) st = filteredLibrary lc gt xs st \<and>
         (\<forall>a\<in>set xs. filter (\<lambda>b. SortCompare c a b = 0) (filteredLibrary lc gt xs st)
                        = filter (\<lambda>b. SortCompare c a b = 0) (filter (activeCriteria st) xs)))"
proof -
  define c where "c = compareItems lc gt k"
  define st where "st = \<lparr>searchQuery = q, genreFilter = g, sourceFilter = s, sortBy = k\<rparr>"
  define ys where "ys = filter (activeCriteria st) xs"
  have cons: "consistent_on (set xs) c"
    unfolding c_def using assms by (rule compareItems_consistent)
  have sub: "set ys \<subseteq> set xs" by (auto simp: ys_def)
  have cons': "consistent_on (set ys) c" using cons sub by (rule consistent_on_subset)
  have fl: "filteredLibrary lc gt zs st = Array_sort c (filter (activeCriteria st) zs)" for zs
    by (simp add: filteredLibrary_eq c_def st_def)
  have 1: "in_order c (Array_sort c xs)" using cons by (rule in_order_Array_sort) simp
  have 2: "in_order c xs \<longrightarrow> Array_sort c xs = xs" by (simp add: Array_sort_in_order_id)
  have 3: "Array_sort c (Array_sort c xs) = Array_sort c xs" using cons by (rule Array_sort_idem)
  have 4: "\<forall>a\<in>set xs. filter (\<lambda>b. SortCompare c a b = 0) (Array_sort c xs)
                        = filter (\<lambda>b. SortCompare c a b = 0) xs"
    using Array_sort_stable [OF cons] by simp
  have "filter (activeCriteria st) (Array_sort c ys) = Array_sort c ys"
    by (rule filter_Array_sort_all) (simp add: ys_def)
  then have 5: "filteredLibrary lc gt (filteredLibrary lc gt xs st) st = filteredLibrary lc gt xs st"
    unfolding fl using Array_sort_idem [OF cons'] by (simp add: ys_def)
  have 6: "\<forall>a\<in>set xs. filter (\<lambda>b. SortCompare c a b = 0) (filteredLibrary lc gt xs st)
                        = filter (\<lambda>b. SortCompare c a b = 0) (filter (activeCriteria st) xs)"
    unfolding fl using Array_sort_stable [OF cons _ sub] by (simp add: ys_def)
  from 1 2 3 4 5 6 show ?thesis
    unfolding Let_def c_def [symmetric] st_def [symmetric] by blast
qed

theorem sort_idempotent_stable_witness:
  "consistent_on UNIV (\<lambda>a b. Some (example_localeCompare a b)) \<and>
   Array_sort (compareItems example_localeCompare example_getTime Recent)
     [example_song 1 ''a'' None None 0,
      (example_song 2 ''b'' None None 0)\<lparr>last_added := ''2024-01-02T00:00:00.000Z''\<rparr>,
      example_song 3 ''c'' None None 0]
   = [(example_song 2 ''b'' None None 0)\<lparr>last_added := ''2024-01-02T00:00:00.000Z''\<rparr>,
      example_song 1 ''a'' None None 0,
      example_song 3 ''c'' None None 0] \<and>
   Array_sort (compareItems example_localeCompare example_getTime Recent)
     [(example_song 2 ''b'' None None 0)\<lparr>last_added := ''2024-01-02T00:00:00.000Z''\<rparr>,
      example_song 1 ''a'' None None 0,
      example_song 3 ''c'' None None 0]
   = [(example_song 2 ''b'' None None 0)\<lparr>last_added := ''2024-01-02T00:00:00.000Z''\<rparr>,
      example_song 1 ''a'' None None 0,
      example_song 3 ''c'' None None 0]"
proof -
  have e: "Array_sort (compareItems example_localeCompare example_getTime Recent)
     [example_song 1 ''a'' None None 0,
      (example_song 2 ''b'' None None 0)\<lparr>last_added := ''2024-01-02T00:00:00.000Z''\<rparr>,
      example_song 3 ''c'' None None 0]
   = [(example_song 2 ''b'' None None 0)\<lparr>last_added := ''2024-01-02T00:00:00.000Z''\<rparr>,
      example_song 1 ''a'' None None 0,
      example_song 3 ''c'' None None 0]"
    by (simp add: example_song_def example_getTime_def SortCompare_def)
  have v: "Recent = Recent \<longrightarrow> (\<forall>x\<in>set [example_song 1 ''a'' None None 0,
      (example_song 2 ''b'' None None 0)\<lparr>last_added := ''2024-01-02T00:00:00.000Z''\<rparr>,
      example_song 3 ''c'' None None 0]. example_getTime (last_added x) \<noteq> None)"
    by (simp add: example_song_def example_getTime_def)
  from sort_idempotent_stable [OF example_localeCompare_consistent v, of "[]" "''all''" "''all''"]
  have "Array_sort (compareItems example_localeCompare example_getTime Recent)
     (Array_sort (compareItems example_localeCompare example_getTime Recent)
     [example_song 1 ''a'' None None 0,
      (example_song 2 ''b'' None None 0)\<lparr>last_added := ''2024-01-02T00:00:00.000Z''\<rparr>,
      example_song 3 ''c'' None None 0])
    = Array_sort (compareItems example_localeCompare example_getTime Recent)
     [example_song 1 ''a'' None None 0,
      (example_song 2 ''b'' None None 0)\<lparr>last_added := ''2024-01-02T00:00:00.000Z''\<rparr>,
      example_song 3 ''c'' None None 0]"
    unfolding Let_def by blast
  then show ?thesis unfolding e using e example_localeCompare_consistent by simp
qed

text \<open>
  C2 (as the code has it). \<open>clearFilters\<close> sets the query to the empty string and both
  selectors to \<open>all\<close>, and leaves the sort key as it was. After it no filter is active,
  and \<open>filteredLibrary\<close> is the whole of \<open>initialLibrary\<close>, every item once, sorted
  by the sort key in force. Where the comparator of that key is consistent on the library,
  the result is in the order of the key, and it is \<open>initialLibrary\<close> itself, in order, when
  \<open>initialLibrary\<close> already is in that order.
\<close>

theorem clearFilters_effect:
  "searchQuery (clearFilters st) = [] \<and> genreFilter (clearFilters st) = ''all'' \<and>
   sourceFilter (clearFilters st) = ''all'' \<and> sortBy (clearFilters st) = sortBy st \<and>
   \<not> hasActiveFilters (clearFilters st) \<and>
   filteredLibrary lc gt lib (clearFilters st) = Array_sort (compareItems lc gt (sortBy st)) lib \<and>
   mset (filteredLibrary lc gt lib (clearFilters st)) = mset lib \<and>
   (consistent_on (set lib) (compareItems lc gt (sortBy st)) \<longrightarrow>
      in_order (compareItems lc gt (sortBy st)) (filteredLibrary lc gt lib (clearFilters st)) \<and>
      (in_order (compareItems lc gt (sortBy st)) lib \<longrightarrow>
         filteredLibrary lc gt lib (clearFilters st) = lib))"
proof -
  have f: "filteredLibrary lc gt lib (clearFilters st) = Array_sort (compareItems lc gt (sortBy st)) lib"
    by (simp add: filteredLibrary_def clearFilters_def)
  have "in_order (compareItems lc gt (sortBy st)) (Array_sort (compareItems lc gt (sortBy st)) lib)"
    if "consistent_on (set lib) (compareItems lc gt (sortBy st))"
    using that by (rule in_order_Array_sort) simp
  then show ?thesis
    unfolding f by (simp add: clearFilters_def hasActiveFilters_def Array_sort_in_order_id)
qed

theorem clearFilters_effect_witness:
  "hasActiveFilters \<lparr>searchQuery = ''x'', genreFilter = ''Rock'', sourceFilter = ''all'', sortBy = Plays\<rparr> \<and>
   \<not> hasActiveFilters (clearFilters
       \<lparr>searchQuery = ''x'', genreFilter = ''Rock'', sourceFilter = ''all'', sortBy = Plays\<rparr>) \<and>
   consistent_on (set [example_song 2 ''b'' None None 5, example_song 1 ''a'' None None 3])
     (compareItems example_localeCompare example_getTime Plays) \<and>
   in_order (compareItems example_localeCompare example_getTime Plays)
     [example_song 2 ''b'' None None 5, example_song 1 ''a'' None None 3] \<and>
   filteredLibrary example_localeCompare example_getTime
     [example_song 2 ''b'' None None 5, example_song 1 ''a'' None None 3]
     (clearFilters \<lparr>searchQuery = ''x'', genreFilter = ''Rock'', sourceFilter = ''all'', sortBy = Plays\<rparr>)
   = [example_song 2 ''b'' None None 5, example_song 1 ''a'' None None 3]"
proof -
  have c: "consistent_on (set [example_song 2 ''b'' None None 5, example_song 1 ''a'' None None 3])
     (compareItems example_localeCompare example_getTime Plays)"
    by (rule compareItems_consistent [OF example_localeCompare_consistent]) simp
  have i: "in_order (compareItems example_localeCompare example_getTime Plays)
     [example_song 2 ''b'' None None 5, example_song 1 ''a'' None None 3]"
    by (simp add: in_order_def SortCompare_def example_song_def)
  have a: "hasActiveFilters
      \<lparr>searchQuery = ''x'', genreFilter = ''Rock'', sourceFilter = ''all'', sortBy = Plays\<rparr>"
    by (simp add: hasActiveFilters_def)
  have s: "sortBy \<lparr>searchQuery = ''x'', genreFilter = ''Rock'', sourceFilter = ''all'',
      sortBy = Plays\<rparr> = Plays"
    by simp
  from clearFilters_effect [of
      "\<lparr>searchQuery = ''x'', genreFilter = ''Rock'', sourceFilter = ''all'', sortBy = Plays\<rparr>"
      example_localeCompare example_getTime
      "[example_song 2 ''b'' None None 5, example_song 1 ''a'' None None 3]"]
  show ?thesis
    unfolding s using a c i by blast
qed

text \<open>
  C2 as claimed fails: with the sort key \<open>plays\<close> selected, clearing the filters of a
  library whose first song has fewer plays than its second shows the second song first.
\<close>

theorem clearFilters_order_counterexample:
  "filteredLibrary example_localeCompare example_getTime
     [example_song 1 ''a'' None None 3, example_song 2 ''b'' None None 5]
     (clearFilters \<lparr>searchQuery = ''x'', genreFilter = ''all'', sourceFilter = ''all'', sortBy = Plays\<rparr>)
   = [example_song 2 ''b'' None None 5, example_song 1 ''a'' None None 3] \<and>
   filteredLibrary example_localeCompare example_getTime
     [example_song 1 ''a'' None None 3, example_song 2 ''b'' None None 5]
     (clearFilters \<lparr>searchQuery = ''x'', genreFilter = ''all'', sourceFilter = ''all'', sortBy = Plays\<rparr>)
   \<noteq> [example_song 1 ''a'' None None 3, example_song 2 ''b'' None None 5]"
  by (simp add: filteredLibrary_def clearFilters_def SortCompare_def example_song_def)

subsection \<open>Vocabularies and statistics\<close>

lemma set_Set_add: "set (Set_add s x) = insert x (set s)"
  by (auto simp: Set_add_def)

lemma distinct_Set_add: "distinct s \<Longrightarrow> distinct (Set_add s x)"
  by (simp add: Set_add_def)

lemma set_foldl_Set_add:
  "set (foldl (\<lambda>acc g. Set_add acc (f g)) acc gs) = set acc \<union> f ` set gs"
  by (induction gs arbitrary: acc) (auto simp: set_Set_add)

lemma distinct_foldl_Set_add:
  "distinct acc \<Longrightarrow> distinct (foldl (\<lambda>acc g. Set_add acc (f g)) acc gs)"
  by (induction gs arbitrary: acc) (auto simp: distinct_Set_add)

lemma set_collect_tokens:
  "set (foldl (\<lambda>acc item.
                 case field item of
                   None \<Rightarrow> acc
                 | Some raw \<Rightarrow> foldl (\<lambda>acc g. Set_add acc (trim g)) acc (split_str CHR '','' raw))
          acc lib)
   = set acc \<union> (\<Union>item\<in>set lib. tokens_of (field item))"
proof (induction lib arbitrary: acc)
  case Nil
  then show ?case by simp
next
  case (Cons item lib)
  show ?case
    by (cases "field item") (auto simp: Cons.IH tokens_of_def set_foldl_Set_add)
qed

lemma distinct_collect_tokens:
  "distinct acc \<Longrightarrow>
   distinct (foldl (\<lambda>acc item.
                 case field item of
                   None \<Rightarrow> acc
                 | Some raw \<Rightarrow> foldl (\<lambda>acc g. Set_add acc (trim g)) acc (split_str CHR '','' raw))
          acc lib)"
proof (induction lib arbitrary: acc)
  case Nil
  then show ?case by simp
next
  case (Cons item lib)
  show ?case
    by (cases "field item") (simp_all add: Cons distinct_foldl_Set_add)
qed

lemma allGenres_facts:
  "set (allGenres lib) = (\<Union>item\<in>set lib. tokens_of (genre item))"
  "distinct (allGenres lib)" "sorted (allGenres lib)"
  by (simp_all add: allGenres_def set_collect_tokens distinct_collect_tokens)

lemma allSources_facts:
  "set (allSources lib) = (\<Union>item\<in>set lib. tokens_of (sources item))"
  "distinct (allSources lib)" "sorted (allSources lib)"
  by (simp_all add: allSources_def set_collect_tokens distinct_collect_tokens)

lemma new_Set_facts: "set (new_Set xs) = set xs" "distinct (new_Set xs)"
  using set_foldl_Set_add [of "\<lambda>x. x" "[]" xs] distinct_foldl_Set_add [of "[]" "\<lambda>x. x" xs]
  by (simp_all add: new_Set_def)

lemma length_new_Set: "length (new_Set xs) = card (set xs)"
  by (metis new_Set_facts distinct_card)

lemma foldl_plus_sum_list:
  "foldl (\<lambda>sum i. sum + f i) a xs = a + sum_list (map f xs)" for a :: int
  by (induction xs arbitrary: a) simp_all

lemma beyond_take_not_offered:
  assumes "distinct xs" "n \<le> i" "i < length xs"
  shows "xs ! i \<notin> set (take n xs)"
proof
  assume "xs ! i \<in> set (take n xs)"
  then obtain j where j: "j < length (take n xs)" "take n xs ! j = xs ! i"
    by (auto simp: in_set_conv_nth)
  then have "j < n" "j < length xs" "xs ! j = xs ! i" by simp_all
  with assms show False by (simp add: nth_eq_iff_index_eq)
qed

text \<open>
  C8. The statistics on the page are the same in any two filter and sort states: the number
  of distinct artist names, the number of distinct genre tokens, the sums of the play counts
  and of the like counts, and the hours and minutes of the summed durations, all taken over
  the whole of \<open>initialLibrary\<close>.
\<close>

theorem statistics_ignore_filters:
  "statistics (LibraryPageClient lc gt lib st1) = statistics (LibraryPageClient lc gt lib st2) \<and>
   statistics (LibraryPageClient lc gt lib st1) =
     (let total = sum_list (map (\<lambda>i. case duration_seconds i of None \<Rightarrow> 0 | Some d \<Rightarrow> d) lib)
      in (card (artist_name ` set lib),
          card (\<Union>item\<in>set lib. tokens_of (genre item)),
          sum_list (map play_count lib),
          sum_list (map like_count lib),
          total div 3600,
          js_rem total 3600 div 60))"
proof -
  have g: "length (allGenres lib) = card (\<Union>item\<in>set lib. tokens_of (genre item))"
    using allGenres_facts(1,2) [of lib] by (metis distinct_card)
  show ?thesis
    by (simp add: statistics_def LibraryPageClient_def uniqueArtists_def uniqueGenres_def
        totalPlays_def totalLikes_def totalHours_def totalMins_def totalDuration_def
        length_new_Set g foldl_plus_sum_list Let_def cong: option.case_cong)
qed

theorem statistics_ignore_filters_witness:
  "rows (LibraryPageClient example_localeCompare example_getTime
     [example_song 1 ''Hello'' (Some ''Pop,Rock'') (Some ''spotify_import'') 3,
      example_song 2 ''World'' (Some ''Jazz'') (Some ''request'') 5]
     \<lparr>searchQuery = ''hel'', genreFilter = ''Rock'', sourceFilter = ''all'', sortBy = Plays\<rparr>)
   = [example_song 1 ''Hello'' (Some ''Pop,Rock'') (Some ''spotify_import'') 3] \<and>
   statistics (LibraryPageClient example_localeCompare example_getTime
     [example_song 1 ''Hello'' (Some ''Pop,Rock'') (Some ''spotify_import'') 3,
      example_song 2 ''World'' (Some ''Jazz'') (Some ''request'') 5]
     \<lparr>searchQuery = ''hel'', genreFilter = ''Rock'', sourceFilter = ''all'', sortBy = Plays\<rparr>)
   = (1, 3, 8, 0, 0, 4) \<and>
   statistics (LibraryPageClient example_localeCompare example_getTime
     [example_song 1 ''Hello'' (Some ''Pop,Rock'') (Some ''spotify_import'') 3,
      example_song 2 ''World'' (Some ''Jazz'') (Some ''request'') 5]
     initial_state)
   = (1, 3, 8, 0, 0, 4)"
proof -
  have r: "rows (LibraryPageClient example_localeCompare example_getTime
     [example_song 1 ''Hello'' (Some ''Pop,Rock'') (Some ''spotify_import'') 3,
      example_song 2 ''World'' (Some ''Jazz'') (Some ''request'') 5]
     \<lparr>searchQuery = ''hel'', genreFilter = ''Rock'', sourceFilter = ''all'', sortBy = Plays\<rparr>)
   = [example_song 1 ''Hello'' (Some ''Pop,Rock'') (Some ''spotify_import'') 3]"
    by code_simp
  have s: "statistics (LibraryPageClient example_localeCompare example_getTime
     [example_song 1 ''Hello'' (Some ''Pop,Rock'') (Some ''spotify_import'') 3,
      example_song 2 ''World'' (Some ''Jazz'') (Some ''request'') 5]
     initial_state)
   = (1, 3, 8, 0, 0, 4)"
    by code_simp
  from statistics_ignore_filters [of example_localeCompare example_getTime
     "[example_song 1 ''Hello'' (Some ''Pop,Rock'') (Some ''spotify_import'') 3,
      example_song 2 ''World'' (Some ''Jazz'') (Some ''request'') 5]"
     "\<lparr>searchQuery = ''hel'', genreFilter = ''Rock'', sourceFilter = ''all'', sortBy = Plays\<rparr>"
     initial_state]
  have "statistics (LibraryPageClient example_localeCompare example_getTime
     [example_song 1 ''Hello'' (Some ''Pop,Rock'') (Some ''spotify_import'') 3,
      example_song 2 ''World'' (Some ''Jazz'') (Some ''request'') 5]
     \<lparr>searchQuery = ''hel'', genreFilter = ''Rock'', sourceFilter = ''all'', sortBy = Plays\<rparr>)
   = statistics (LibraryPageClient example_localeCompare example_getTime
     [example_song 1 ''Hello'' (Some ''Pop,Rock'') (Some ''spotify_import'') 3,
      example_song 2 ''World'' (Some ''Jazz'') (Some ''request'') 5]
     initial_state)"
    by (rule conjunct1)
  with r s show ?thesis by simp
qed

text \<open>
  C10. The genre dropdown offers \<open>all\<close> and then the first twenty entries of
  \<open>allGenres\<close>, which is sorted, free of duplicates and holds exactly the genre tokens of
  the library; an entry of \<open>allGenres\<close> at position twenty or later is not among the
  twenty offered. The source dropdown offers \<open>all\<close> and then the whole of
  \<open>allSources\<close>.
\<close>

theorem dropdown_options:
  "genre_options (LibraryPageClient lc gt lib st) = ''all'' # take 20 (allGenres lib) \<and>
   length (take 20 (allGenres lib)) \<le> 20 \<and>
   sorted (allGenres lib) \<and> distinct (allGenres lib) \<and>
   set (allGenres lib) = (\<Union>item\<in>set lib. tokens_of (genre item)) \<and>
   (\<forall>i. 20 \<le> i \<and> i < length (allGenres lib)
        \<longrightarrow> allGenres lib ! i \<notin> set (take 20 (allGenres lib))) \<and>
   source_options (LibraryPageClient lc gt lib st) = ''all'' # allSources lib \<and>
   sorted (allSources lib) \<and> distinct (allSources lib) \<and>
   set (allSources lib) = (\<Union>item\<in>set lib. tokens_of (sources item))"
  using beyond_take_not_offered [OF allGenres_facts(2), of 20 _ lib]
  by (simp add: LibraryPageClient_def allGenres_facts allSources_facts)

theorem dropdown_options_witness:
  "length (allGenres [example_song 1 ''x'' (Some example_tags) (Some example_tags) 0]) = 22 \<and>
   allGenres [example_song 1 ''x'' (Some example_tags) (Some example_tags) 0] ! 20 = ''u'' \<and>
   ''u'' \<notin> set (genre_options (LibraryPageClient example_localeCompare example_getTime
            [example_song 1 ''x'' (Some example_tags) (Some example_tags) 0] initial_state)) \<and>
   ''u'' \<in> set (source_options (LibraryPageClient example_localeCompare example_getTime
            [example_song 1 ''x'' (Some example_tags) (Some example_tags) 0] initial_state))"
proof -
  have l: "length (allGenres [example_song 1 ''x'' (Some example_tags) (Some example_tags) 0]) = 22"
    by code_simp
  have u: "allGenres [example_song 1 ''x'' (Some example_tags) (Some example_tags) 0] ! 20 = ''u''"
    by code_simp
  have s: "''u'' \<in> set (allSources [example_song 1 ''x'' (Some example_tags) (Some example_tags) 0])"
    by code_simp
  note t = dropdown_options [of example_localeCompare example_getTime
      "[example_song 1 ''x'' (Some example_tags) (Some example_tags) 0]" initial_state]
  from t have "20 \<le> (20::nat) \<and>
      20 < length (allGenres [example_song 1 ''x'' (Some example_tags) (Some example_tags) 0])
      \<longrightarrow> allGenres [example_song 1 ''x'' (Some example_tags) (Some example_tags) 0] ! 20
          \<notin> set (take 20 (allGenres [example_song 1 ''x'' (Some example_tags) (Some example_tags) 0]))"
    by blast
  with l u have "''u'' \<notin> set (take 20 (allGenres
      [example_song 1 ''x'' (Some example_tags) (Some example_tags) 0]))"
    by simp
  moreover from t have "genre_options (LibraryPageClient example_localeCompare example_getTime
            [example_song 1 ''x'' (Some example_tags) (Some example_tags) 0] initial_state)
      = ''all'' # take 20 (allGenres [example_song 1 ''x'' (Some example_tags) (Some example_tags) 0])"
    by blast
  moreover from t have "source_options (LibraryPageClient example_localeCompare example_getTime
            [example_song 1 ''x'' (Some example_tags) (Some example_tags) 0] initial_state)
      = ''all'' # allSources [example_song 1 ''x'' (Some example_tags) (Some example_tags) 0]"
    by blast
  ultimately show ?thesis using l u s by simp
qed

subsection \<open>Durations\<close>

lemma pad_two_digits:
  "k < 100 \<Longrightarrow>
   padStart (nat_toString k) 2 CHR ''0'' = [digit_char (k div 10), digit_char (k mod 10)]"
proof (cases "k < 10")
  case True
  then show ?thesis
    by (simp add: padStart_def nat_toString.simps [of k] digit_char_def)
next
  case False
  assume "k < 100"
  with False have "k div 10 < 10" by simp
  with False show ?thesis
    by (simp add: padStart_def nat_toString.simps [of k] nat_toString.simps [of "k div 10"])
qed

text \<open>
  C9. \<open>formatDuration\<close> gives the placeholder for \<open>null\<close> and also for \<open>0\<close>. For a
  positive number of seconds it gives the whole minutes in decimal, a colon, and the
  remaining seconds as exactly two digits; 125 gives \<open>2:05\<close>.
\<close>

theorem formatDuration_cases:
  "formatDuration None = ''--:--'' \<and> formatDuration (Some 0) = ''--:--'' \<and>
   (0 < n \<longrightarrow>
      formatDuration (Some n) =
        toString (n div 60) @ '':'' @
          [digit_char (nat (n mod 60) div 10), digit_char (nat (n mod 60) mod 10)]) \<and>
   formatDuration (Some 125) = ''2:05''"
proof -
  have a: "formatDuration None = ''--:--''" "formatDuration (Some 0) = ''--:--''"
    by (simp_all add: formatDuration_def)
  have b: "formatDuration (Some n) =
        toString (n div 60) @ '':'' @
          [digit_char (nat (n mod 60) div 10), digit_char (nat (n mod 60) mod 10)]" if "0 < n"
  proof -
    have r: "js_rem n 60 = n mod 60" using that by (simp add: js_rem_def)
    have "nat (n mod 60) < 100" by (simp add: nat_less_iff)
    moreover have "\<not> n mod 60 < 0" by simp
    ultimately have "padStart (toString (n mod 60)) 2 CHR ''0'' =
        [digit_char (nat (n mod 60) div 10), digit_char (nat (n mod 60) mod 10)]"
      unfolding toString_def by (simp only: if_False pad_two_digits)
    with that r show ?thesis by (simp add: formatDuration_def Let_def)
  qed
  have c: "formatDuration (Some 125) = ''2:05''" by code_simp
  from a b c show ?thesis by blast
qed

theorem formatDuration_cases_witness:
  "(0::int) < 125 \<and>
   formatDuration (Some 125) = toString 2 @ '':'' @ [digit_char 0, digit_char 5] \<and>
   toString 2 @ '':'' @ [digit_char 0, digit_char 5] = ''2:05''"
proof -
  have "toString 2 @ '':'' @ [digit_char 0, digit_char 5] = ''2:05''" by code_simp
  then show ?thesis using formatDuration_cases [of 125] by simp
qed

end
